theory Spec2Isabelle
  imports Complex_Main
begin

section \<open>Values, requests and responses\<close>

text \<open>
  The route handlers move JavaScript values between the request body, the SQL parameter
  arrays and the response body. A finite number is kept as a rational (a JSON document
  holds no NaN), a string as a list of characters (the handlers compare
  strings with literals and take their length, nothing else), an object as its list of
  properties. \<open>JUndefined\<close> is what reading a missing property gives, and
  \<open>JInfinity\<close> what a number too large for a double is read as (\<open>True\<close> for the
  negative one).
\<close>

datatype jsval =
    JUndefined
  | JNull
  | JBool bool
  | JNum rat
  | JInfinity bool
  | JStr string
  | JArr "jsval list"
  | JObj "(string \<times> jsval) list"

type_synonym row = "(string \<times> jsval) list"

definition get_prop :: "(string \<times> jsval) list \<Rightarrow> string \<Rightarrow> jsval" where
  "get_prop fs k = (case map_of fs k of None \<Rightarrow> JUndefined | Some v \<Rightarrow> v)"

text \<open>The object literal \<open>{ message: m }\<close> of the handlers' bodies.\<close>

definition message_body :: "string \<Rightarrow> jsval" where
  "message_body m = JObj [(''message'', JStr m)]"

text \<open>
  What \<open>verify\<close> of jsonwebtoken returns for a token it accepts: the payload, a string
  or an object. \<open>decoded.userId\<close> is undefined on a string payload and on an object
  without that property.
\<close>

datatype jwt_payload = PayloadString string | PayloadObject "(string \<times> jsval) list"

definition userId :: "jwt_payload \<Rightarrow> jsval" where
  "userId decoded = (case decoded of PayloadString s \<Rightarrow> JUndefined | PayloadObject fs \<Rightarrow> get_prop fs ''userId'')"

text \<open>
  A ZodError holds at least one issue; the camera handler reads \<open>error.issues[0].message\<close>,
  the login handler \<open>error.message\<close>. Every other thrown error is kept by its text.
\<close>

datatype zod_error = ZodIssues (issue0_message: string) (more_issues: "string list") (error_message: string)

datatype exn = ZodError zod_error | OtherError string

record cookie_options =
  httpOnly :: bool
  secure :: bool
  sameSite :: string
  maxAge :: int
  path :: string

record request =
  cookies :: "(string \<times> string) list"
  json :: "string + jsval"

record response =
  status :: nat
  headers :: "(string \<times> string) list"
  body :: jsval

text \<open>
  \<open>req.cookies.get(n)?.value\<close>: the value of the cookie named \<open>n\<close>, undefined (\<open>None\<close>)
  when the request has no such cookie.
\<close>

definition cookies_get :: "request \<Rightarrow> string \<Rightarrow> string option" where
  "cookies_get req n = map_of (cookies req) n"

text \<open>
  \<open>NextResponse.json(v, { status })\<close> and \<open>new NextResponse(JSON.stringify(v), { headers })\<close>;
  the second has the default status 200 and, its body being a string and its headers
  naming no content type, the content type of text. The body is kept as the document
  that \<open>JSON.stringify\<close> writes.
\<close>

definition NextResponse_json :: "jsval \<Rightarrow> nat \<Rightarrow> response" where
  "NextResponse_json v st = \<lparr>status = st, headers = [(''content-type'', ''application/json'')], body = v\<rparr>"

definition NextResponse_new :: "jsval \<Rightarrow> (string \<times> string) list \<Rightarrow> response" where
  "NextResponse_new v hs =
     \<lparr>status = 200, headers = hs @ [(''content-type'', ''text/plain;charset=UTF-8'')], body = v\<rparr>"

section \<open>The libraries and the environment\<close>

text \<open>
  The handlers call pg, jsonwebtoken, bcrypt, cookie and zod, and read three environment
  variables. What these do is a parameter of the model:
  \<^item> \<open>pool_run\<close>: the effect of one parameterized query on the database and its outcome,
    the rows or the text of the error the promise rejects with;
  \<^item> \<open>verify\<close>: the payload of a token under a secret, or the error thrown;
  \<^item> \<open>jws_sign\<close>: the encoded and signed token for a set of claims and a key, or the
    error thrown; \<open>clock\<close>: the clock in seconds at the first (0), second (1), ...
    reading of it while the request is served;
  \<^item> \<open>bcrypt_compare\<close>: whether the password matches the stored hash, or the error
    thrown (the hash is whatever the row holds);
  \<^item> \<open>serialize\<close>: the Set-Cookie text of a name, a value and its options;
  \<^item> \<open>z_email\<close>, \<open>z_url\<close>: the formats \<open>z.email()\<close> and \<open>z.string().url()\<close> accept;
  \<^item> \<open>login_zod_error\<close>, \<open>camera_zod_error\<close>: the ZodError that \<open>parse\<close> throws for a
    body the schema rejects;
  \<^item> \<open>JWT_ACCESS_SECRET\<close>, \<open>JWT_REFRESH_SECRET\<close>, \<open>NODE_ENV\<close>: the environment
    variables, \<open>None\<close> when unset.
\<close>

record 'db lib =
  pool_run :: "string \<Rightarrow> jsval list \<Rightarrow> 'db \<Rightarrow> (string + row list) \<times> 'db"
  verify :: "string \<Rightarrow> string option \<Rightarrow> string + jwt_payload"
  jws_sign :: "jsval \<Rightarrow> string \<Rightarrow> string + string"
  clock :: "nat \<Rightarrow> nat"
  bcrypt_compare :: "string \<Rightarrow> jsval \<Rightarrow> string + bool"
  serialize :: "string \<Rightarrow> string \<Rightarrow> cookie_options \<Rightarrow> string"
  z_email :: "string \<Rightarrow> bool"
  z_url :: "string \<Rightarrow> bool"
  login_zod_error :: "jsval \<Rightarrow> zod_error"
  camera_zod_error :: "jsval \<Rightarrow> zod_error"
  JWT_ACCESS_SECRET :: "string option"
  JWT_REFRESH_SECRET :: "string option"
  NODE_ENV :: "string option"

text \<open>
  The state a request runs against: the database, and the queries the pool has been
  handed so far, oldest first.
\<close>

record 'db world =
  store :: 'db
  queries :: "(string \<times> jsval list) list"

section \<open>database/db.ts\<close>

text \<open>
  \<open>pool.query(text, params)\<close> runs the query on the database and is recorded in
  \<open>queries\<close>; a rejected promise is a thrown error.
\<close>

definition pool_query :: "'db lib \<Rightarrow> string \<Rightarrow> jsval list \<Rightarrow> 'db world \<Rightarrow> (exn + row list) \<times> 'db world" where
  "pool_query L qtext params w =
     (case pool_run L qtext params (store w) of
        (res, d) \<Rightarrow>
          ((case res of Inl e \<Rightarrow> Inl (OtherError e) | Inr rows \<Rightarrow> Inr rows),
           \<lparr>store = d, queries = queries w @ [(qtext, params)]\<rparr>))"

definition db_query :: "'db lib \<Rightarrow> string \<Rightarrow> jsval list \<Rightarrow> 'db world \<Rightarrow> (exn + row list) \<times> 'db world" where
  "db_query L qtext params = pool_query L qtext params"

section \<open>app/api/configs/camera/route.ts\<close>

record camera_input =
  name :: string
  streamUrl :: "string option"
  locationId :: rat

text \<open>\<open>z.string().min(1, "Camera name is required")\<close>\<close>

definition cameraSchema_name :: "jsval \<Rightarrow> string option" where
  "cameraSchema_name v = (case v of JStr s \<Rightarrow> if 1 \<le> length s then Some s else None | _ \<Rightarrow> None)"

text \<open>
  \<open>String.prototype.trim\<close>, on the white space of ASCII: tab, line feed, vertical tab,
  form feed, carriage return and space.
\<close>

definition js_whitespace :: "char \<Rightarrow> bool" where
  "js_whitespace c = (let k = (of_char c :: nat) in (9 \<le> k \<and> k \<le> 13) \<or> k = 32)"

definition trim :: "string \<Rightarrow> string" where
  "trim s = rev (dropWhile js_whitespace (rev (dropWhile js_whitespace s)))"

text \<open>
  \<open>z.string().url("Invalid URL format").optional().or(z.literal(""))\<close>: undefined, a
  string in URL format, or the empty string. The URL check of zod trims the string,
  tests the trimmed string and returns it; the parsed streamUrl of a URL is therefore the
  body's string without the white space around it.
\<close>

definition cameraSchema_streamUrl :: "'db lib \<Rightarrow> jsval \<Rightarrow> string option option" where
  "cameraSchema_streamUrl L v =
     (case v of
        JUndefined \<Rightarrow> Some None
      | JStr s \<Rightarrow>
          if z_url L (trim s) then Some (Some (trim s))
          else if s = '''' then Some (Some '''')
          else None
      | _ \<Rightarrow> None)"

text \<open>
  \<open>z.number().int().positive("Location ID must be a positive integer")\<close>: a finite number
  that is an integer within the safe range of a double (at most 2^53 - 1 in absolute
  value), and positive.
\<close>

definition MAX_SAFE_INTEGER :: rat where
  "MAX_SAFE_INTEGER = 9007199254740991"

definition cameraSchema_locationId :: "jsval \<Rightarrow> rat option" where
  "cameraSchema_locationId v =
     (case v of
        JNum r \<Rightarrow>
          if r = of_int \<lfloor>r\<rfloor> \<and> - MAX_SAFE_INTEGER \<le> r \<and> r \<le> MAX_SAFE_INTEGER \<and> 0 < r
          then Some r else None
      | _ \<Rightarrow> None)"

definition cameraSchema_parse :: "'db lib \<Rightarrow> jsval \<Rightarrow> zod_error + camera_input" where
  "cameraSchema_parse L b =
     (case b of
        JObj fs \<Rightarrow>
          (case (cameraSchema_name (get_prop fs ''name''),
                 cameraSchema_streamUrl L (get_prop fs ''streamUrl''),
                 cameraSchema_locationId (get_prop fs ''locationId'')) of
             (Some n, Some u, Some l) \<Rightarrow> Inr \<lparr>name = n, streamUrl = u, locationId = l\<rparr>
           | _ \<Rightarrow> Inl (camera_zod_error L b))
      | _ \<Rightarrow> Inl (camera_zod_error L b))"

definition location_sql :: string where
  "location_sql = ''SELECT l.id FROM locations l JOIN factories f ON l.factory_id = f.id WHERE l.id = $1 AND f.user_id = $2''"

definition insert_camera_sql :: string where
  "insert_camera_sql = ''INSERT INTO cameras (name, stream_url, location_id) VALUES ($1, $2, $3) RETURNING *''"

text \<open>\<open>streamUrl || null\<close>: undefined and the empty string are falsy.\<close>

definition or_null :: "string option \<Rightarrow> jsval" where
  "or_null u = (case u of None \<Rightarrow> JNull | Some s \<Rightarrow> if s = '''' then JNull else JStr s)"

text \<open>
  The two queries, lines 96 to 114 of the handler. \<open>rows[0]\<close> of an INSERT that returned
  no row is undefined, which \<open>NextResponse.json\<close> refuses with a TypeError.
\<close>

definition camera_queries :: "'db lib \<Rightarrow> jsval \<Rightarrow> camera_input \<Rightarrow> 'db world \<Rightarrow> (exn + response) \<times> 'db world" where
  "camera_queries L uid inp w =
     (case db_query L location_sql [JNum (locationId inp), uid] w of
        (Inl e, w1) \<Rightarrow> (Inl e, w1)
      | (Inr locationCheck, w1) \<Rightarrow>
          if length locationCheck = 0
          then (Inr (NextResponse_json (message_body ''Location not found or does not belong to user'') 404), w1)
          else
            (case db_query L insert_camera_sql [JStr (name inp), or_null (streamUrl inp), JNum (locationId inp)] w1 of
               (Inl e, w2) \<Rightarrow> (Inl e, w2)
             | (Inr rows, w2) \<Rightarrow>
                 (case rows of
                    [] \<Rightarrow> (Inl (OtherError ''TypeError''), w2)
                  | r # rs \<Rightarrow> (Inr (NextResponse_json (JObj r) 201), w2))))"

text \<open>The body of the \<open>try\<close> block: verify the token, read and parse the body, query.\<close>

definition camera_try :: "'db lib \<Rightarrow> request \<Rightarrow> string \<Rightarrow> 'db world \<Rightarrow> (exn + response) \<times> 'db world" where
  "camera_try L req accessToken w =
     (case verify L accessToken (JWT_ACCESS_SECRET L) of
        Inl e \<Rightarrow> (Inl (OtherError e), w)
      | Inr decoded \<Rightarrow>
          (case json req of
             Inl e \<Rightarrow> (Inl (OtherError e), w)
           | Inr b \<Rightarrow>
               (case cameraSchema_parse L b of
                  Inl z \<Rightarrow> (Inl (ZodError z), w)
                | Inr inp \<Rightarrow> camera_queries L (userId decoded) inp w)))"

text \<open>
  The handler: \<open>!accessToken\<close> holds for a missing cookie and for one whose value is the
  empty string. The catch block tells a ZodError from every other error, which it writes
  to the console before it answers 500.
\<close>

definition camera_POST :: "'db lib \<Rightarrow> request \<Rightarrow> 'db world \<Rightarrow> response \<times> 'db world" where
  "camera_POST L req w =
     (case cookies_get req ''accessToken'' of
        None \<Rightarrow> (NextResponse_json (message_body ''Unauthorized'') 401, w)
      | Some accessToken \<Rightarrow>
          if accessToken = '''' then (NextResponse_json (message_body ''Unauthorized'') 401, w)
          else
            (case camera_try L req accessToken w of
               (Inr res, w') \<Rightarrow> (res, w')
             | (Inl (ZodError z), w') \<Rightarrow> (NextResponse_json (message_body (issue0_message z)) 400, w')
             | (Inl (OtherError e), w') \<Rightarrow> (NextResponse_json (message_body ''Error adding camera'') 500, w')))"

section \<open>The session route: POST and DELETE /api/auth/session\<close>

record credentials =
  email :: string
  password :: string

text \<open>\<open>z.email()\<close> and \<open>z.string().min(6)\<close>\<close>

definition schema_email :: "'db lib \<Rightarrow> jsval \<Rightarrow> string option" where
  "schema_email L v = (case v of JStr s \<Rightarrow> if z_email L s then Some s else None | _ \<Rightarrow> None)"

definition schema_password :: "jsval \<Rightarrow> string option" where
  "schema_password v = (case v of JStr s \<Rightarrow> if 6 \<le> length s then Some s else None | _ \<Rightarrow> None)"

definition schema_parse :: "'db lib \<Rightarrow> jsval \<Rightarrow> zod_error + credentials" where
  "schema_parse L b =
     (case b of
        JObj fs \<Rightarrow>
          (case (schema_email L (get_prop fs ''email''), schema_password (get_prop fs ''password'')) of
             (Some e, Some p) \<Rightarrow> Inr \<lparr>email = e, password = p\<rparr>
           | _ \<Rightarrow> Inl (login_zod_error L b))
      | _ \<Rightarrow> Inl (login_zod_error L b))"

definition users_sql :: string where
  "users_sql = ''SELECT id, name, email, password FROM users WHERE email = $1''"

text \<open>\<open>xs.join(sep)\<close> on an array of strings.\<close>

fun join :: "string \<Rightarrow> string list \<Rightarrow> string" where
  "join sep [] = []"
| "join sep [x] = x"
| "join sep (x # y # ys) = x @ sep @ join sep (y # ys)"

text \<open>\<open>process.env.NODE_ENV === "production"\<close>\<close>

definition production :: "'db lib \<Rightarrow> bool" where
  "production L = (NODE_ENV L = Some ''production'')"

text \<open>
  The arguments of the two \<open>serialize\<close> calls of the login handler, for the tokens it
  has signed, and the strings they give.
\<close>

definition login_cookies :: "'db lib \<Rightarrow> string \<Rightarrow> string \<Rightarrow> (string \<times> string \<times> cookie_options) list" where
  "login_cookies L accessToken refreshToken =
     [(''accessToken'', accessToken,
       \<lparr>httpOnly = True, secure = production L, sameSite = ''strict'', maxAge = 15 * 60, path = ''/''\<rparr>),
      (''refreshToken'', refreshToken,
       \<lparr>httpOnly = True, secure = production L, sameSite = ''strict'', maxAge = 60 * 60 * 24 * 7, path = ''/''\<rparr>)]"

definition serialized :: "'db lib \<Rightarrow> (string \<times> string \<times> cookie_options) list \<Rightarrow> string list" where
  "serialized L cs = map (\<lambda>(n, v, opts). serialize L n v opts) cs"

subsection \<open>\<open>sign\<close> of jsonwebtoken\<close>

text \<open>
  The library's \<open>sign(payload, secret, { expiresIn })\<close>, as far as the handlers use it: it
  throws without a secret, reads the string \<open>expiresIn\<close> as a time span with the
  \<open>ms\<close> package, adds the claims \<open>iat\<close> (the clock in seconds) and \<open>exp\<close> to the
  payload, and has the claims encoded and signed. The signing itself is the parameter
  \<open>jws_sign\<close>; what the clock reads when \<open>sign\<close> is called is the argument
  \<open>timestamp\<close>.

  \<open>ms\<close> accepts a string of at most 100 characters made of a decimal number (an optional
  minus sign, digits, an optional fraction), spaces, and an optional unit in any case; no
  unit means milliseconds. Its value is the number of milliseconds, kept here as an exact
  rational where JavaScript has a double.
\<close>

definition is_digit :: "char \<Rightarrow> bool" where
  "is_digit c = (let k = (of_char c :: nat) in 48 \<le> k \<and> k \<le> 57)"

fun digits_value :: "nat \<Rightarrow> string \<Rightarrow> nat" where
  "digits_value acc [] = acc"
| "digits_value acc (c # cs) = digits_value (10 * acc + (of_char c - 48)) cs"

definition to_lower :: "char \<Rightarrow> char" where
  "to_lower c = (let k = (of_char c :: nat) in if 65 \<le> k \<and> k \<le> 90 then char_of (k + 32) else c)"

text \<open>The number at the head of the string, and what follows it.\<close>

definition ms_number :: "string \<Rightarrow> (rat \<times> string) option" where
  "ms_number s =
     (let neg = (take 1 s = ''-'');
          s1 = (if neg then drop 1 s else s);
          ip = takeWhile is_digit s1;
          r1 = dropWhile is_digit s1;
          fp = (if take 1 r1 = ''.'' then takeWhile is_digit (drop 1 r1) else []);
          r2 = (if fp = [] then r1 else dropWhile is_digit (drop 1 r1));
          v = of_nat (digits_value 0 ip) + of_nat (digits_value 0 fp) / 10 ^ length fp
      in if ip = [] \<and> fp = [] then None else Some (if neg then - v else v, r2))"

definition ms_units :: "(string list \<times> rat) list" where
  "ms_units =
     [([''years'', ''year'', ''yrs'', ''yr'', ''y''], 31557600000),
      ([''weeks'', ''week'', ''w''], 604800000),
      ([''days'', ''day'', ''d''], 86400000),
      ([''hours'', ''hour'', ''hrs'', ''hr'', ''h''], 3600000),
      ([''minutes'', ''minute'', ''mins'', ''min'', ''m''], 60000),
      ([''seconds'', ''second'', ''secs'', ''sec'', ''s''], 1000),
      ([''milliseconds'', ''millisecond'', ''msecs'', ''msec'', ''ms''], 1)]"

definition ms_unit :: "string \<Rightarrow> rat option" where
  "ms_unit u =
     (if u = [] then Some 1
      else map_option snd (find (\<lambda>(names, k). u \<in> set names) ms_units))"

definition ms :: "string \<Rightarrow> rat option" where
  "ms str =
     (if 100 < length str then None
      else (case ms_number str of
              None \<Rightarrow> None
            | Some (n, rest) \<Rightarrow>
                map_option (\<lambda>k. n * k) (ms_unit (map to_lower (dropWhile (\<lambda>c. c = CHR '' '') rest)))))"

text \<open>\<open>timespan(time, iat)\<close>: the second at which a token signed at \<open>iat\<close> expires.\<close>

definition timespan :: "string \<Rightarrow> nat \<Rightarrow> int option" where
  "timespan time iat = map_option (\<lambda>milliseconds. \<lfloor>of_nat iat + milliseconds / 1000\<rfloor>) (ms time)"

definition sign :: "'db lib \<Rightarrow> (string \<times> jsval) list \<Rightarrow> string option \<Rightarrow> string \<Rightarrow> nat \<Rightarrow> string + string" where
  "sign L payload secretOrPrivateKey expiresIn timestamp =
     (case secretOrPrivateKey of
        None \<Rightarrow> Inl ''secretOrPrivateKey must have a value''
      | Some k \<Rightarrow>
          if k = [] then Inl ''secretOrPrivateKey must have a value''
          else
            (case timespan expiresIn timestamp of
               None \<Rightarrow> Inl ''expiresIn should be a number of seconds or string representing a timespan''
             | Some e \<Rightarrow>
                 jws_sign L (JObj (payload @ [(''iat'', JNum (of_nat timestamp)), (''exp'', JNum (of_int e))])) k))"

text \<open>
  Lines 90 to 120: sign both tokens for the user's id, serialize, respond. A \<open>sign\<close>
  that throws leaves the \<open>try\<close> block. The two calls read the clock one after the
  other.
\<close>

definition login_success :: "'db lib \<Rightarrow> jsval \<Rightarrow> exn + response" where
  "login_success L uid =
     (case sign L [(''userId'', uid)] (JWT_ACCESS_SECRET L) ''15m'' (clock L 0) of
        Inl e \<Rightarrow> Inl (OtherError e)
      | Inr accessToken \<Rightarrow>
          (case sign L [(''userId'', uid)] (JWT_REFRESH_SECRET L) ''7d'' (clock L 1) of
             Inl e \<Rightarrow> Inl (OtherError e)
           | Inr refreshToken \<Rightarrow>
               Inr (NextResponse_new (message_body ''Login successful'')
                      [(''Set-Cookie'', join '', '' (serialized L (login_cookies L accessToken refreshToken)))])))"

definition invalid_credentials :: response where
  "invalid_credentials = NextResponse_json (message_body ''Invalid credentials'') 401"

text \<open>The body of the \<open>try\<close> block; \<open>user.rows[0]\<close> is read only when there is a row.\<close>

definition session_try :: "'db lib \<Rightarrow> request \<Rightarrow> 'db world \<Rightarrow> (exn + response) \<times> 'db world" where
  "session_try L req w =
     (case json req of
        Inl e \<Rightarrow> (Inl (OtherError e), w)
      | Inr b \<Rightarrow>
          (case schema_parse L b of
             Inl z \<Rightarrow> (Inl (ZodError z), w)
           | Inr cred \<Rightarrow>
               (case db_query L users_sql [JStr (email cred)] w of
                  (Inl e, w1) \<Rightarrow> (Inl e, w1)
                | (Inr rows, w1) \<Rightarrow>
                    (case rows of
                       [] \<Rightarrow> (Inr invalid_credentials, w1)
                     | r # rs \<Rightarrow>
                         (case bcrypt_compare L (password cred) (get_prop r ''password'') of
                            Inl e \<Rightarrow> (Inl (OtherError e), w1)
                          | Inr passwordMatch \<Rightarrow>
                              if \<not> passwordMatch then (Inr invalid_credentials, w1)
                              else (login_success L (get_prop r ''id''), w1))))))"

definition session_POST :: "'db lib \<Rightarrow> request \<Rightarrow> 'db world \<Rightarrow> response \<times> 'db world" where
  "session_POST L req w =
     (case session_try L req w of
        (Inr res, w') \<Rightarrow> (res, w')
      | (Inl (ZodError z), w') \<Rightarrow> (NextResponse_json (message_body (error_message z)) 400, w')
      | (Inl (OtherError e), w') \<Rightarrow> (NextResponse_json (message_body ''Internal server error'') 500, w'))"

text \<open>The logout handler takes no request and calls nothing but \<open>serialize\<close>.\<close>

definition logout_cookies :: "'db lib \<Rightarrow> (string \<times> string \<times> cookie_options) list" where
  "logout_cookies L =
     [(''accessToken'', [],
       \<lparr>httpOnly = True, secure = production L, sameSite = ''strict'', maxAge = - 1, path = ''/''\<rparr>),
      (''refreshToken'', [],
       \<lparr>httpOnly = True, secure = production L, sameSite = ''strict'', maxAge = - 1, path = ''/''\<rparr>)]"

definition session_DELETE :: "'db lib \<Rightarrow> 'db world \<Rightarrow> response \<times> 'db world" where
  "session_DELETE L w =
     (NextResponse_new (message_body ''Logout successful'')
        [(''Set-Cookie'', join '', '' (serialized L (logout_cookies L)))], w)"

section \<open>An environment to run the handlers in\<close>

text \<open>
  One user (id 1, ann@example.com) who owns location 5; the database state counts the
  cameras inserted. Tokens, hashes and cookies are written in the clear.
\<close>

definition demo_user :: row where
  "demo_user = [(''id'', JNum 1), (''name'', JStr ''Ann''), (''email'', JStr ''ann@example.com''),
                (''password'', JStr ''hash:secret1'')]"

definition demo_run :: "string \<Rightarrow> jsval list \<Rightarrow> nat \<Rightarrow> (string + row list) \<times> nat" where
  "demo_run q ps d =
     (if q = users_sql then (Inr (if ps = [JStr ''ann@example.com''] then [demo_user] else []), d)
      else if q = location_sql then (Inr (if ps = [JNum 5, JNum 1] then [[(''id'', JNum 5)]] else []), d)
      else if q = insert_camera_sql
        then (Inr [[(''id'', JNum (of_nat (Suc d))), (''name'', ps ! 0), (''stream_url'', ps ! 1),
                    (''location_id'', ps ! 2)]], Suc d)
      else (Inl ''syntax error'', d))"

text \<open>Decimal numerals, for the cookie and token texts.\<close>

fun show_nat :: "nat \<Rightarrow> string" where
  "show_nat n =
     (if n < 10 then [''0123456789'' ! n]
      else show_nat (n div 10) @ [''0123456789'' ! (n mod 10)])"

declare show_nat.simps [simp del]

definition show_int :: "int \<Rightarrow> string" where
  "show_int i = (if i < 0 then ''-'' @ show_nat (nat (- i)) else show_nat (nat i))"

text \<open>
  The cookie text lists the options as the cookie package orders them; the token text is
  the key and the second of expiry.
\<close>

definition demo_serialize :: "string \<Rightarrow> string \<Rightarrow> cookie_options \<Rightarrow> string" where
  "demo_serialize n v opts =
     n @ ''='' @ v @ ''; Max-Age='' @ show_int (maxAge opts) @ ''; Path='' @ path opts
       @ (if httpOnly opts then ''; HttpOnly'' else [])
       @ (if secure opts then ''; Secure'' else [])
       @ ''; SameSite='' @ sameSite opts"

definition demo_jws_sign :: "jsval \<Rightarrow> string \<Rightarrow> string + string" where
  "demo_jws_sign claims k =
     (case claims of
        JObj fs \<Rightarrow>
          (case get_prop fs ''exp'' of
             JNum e \<Rightarrow> Inr (k @ ''.exp='' @ show_int \<lfloor>e\<rfloor>)
           | _ \<Rightarrow> Inl ''no exp'')
      | _ \<Rightarrow> Inl ''claims are not an object'')"

definition demo_lib :: "nat lib" where
  "demo_lib =
     \<lparr>pool_run = demo_run,
      verify = (\<lambda>t s. if t = ''token-of-1'' \<and> s = Some ''access-secret''
                       then Inr (PayloadObject [(''userId'', JNum 1)])
                       else Inl ''JsonWebTokenError''),
      jws_sign = demo_jws_sign,
      clock = (\<lambda>k. 1000 + k),
      bcrypt_compare = (\<lambda>p h. case h of JStr x \<Rightarrow> Inr (x = ''hash:'' @ p)
                                | _ \<Rightarrow> Inl ''data and hash arguments required''),
      serialize = demo_serialize,
      z_email = (\<lambda>s. CHR ''@'' \<in> set s),
      z_url = (\<lambda>s. take 7 s = ''rtsp://''),
      login_zod_error = (\<lambda>b. ZodIssues ''Invalid input'' [] ''Invalid input''),
      camera_zod_error = (\<lambda>b. ZodIssues ''Invalid input'' [] ''Invalid input''),
      JWT_ACCESS_SECRET = Some ''access-secret'',
      JWT_REFRESH_SECRET = Some ''refresh-secret'',
      NODE_ENV = Some ''production''\<rparr>"

text \<open>The same environment with JWT\_ACCESS\_SECRET unset.\<close>

definition demo_lib_no_secret :: "nat lib" where
  "demo_lib_no_secret = demo_lib\<lparr>JWT_ACCESS_SECRET := None\<rparr>"

definition demo_world :: "nat world" where
  "demo_world = \<lparr>store = 0, queries = []\<rparr>"

text \<open>
  A camera for location \<open>loc\<close> with streamUrl \<open>url\<close>, sent with the token of user 1;
  \<open>demo_camera_body\<close> has the empty string as streamUrl.
\<close>

definition demo_camera_url_body :: "string \<Rightarrow> rat \<Rightarrow> jsval" where
  "demo_camera_url_body url loc = JObj [(''name'', JStr ''Gate''), (''streamUrl'', JStr url), (''locationId'', JNum loc)]"

definition demo_camera_url_request :: "string \<Rightarrow> rat \<Rightarrow> request" where
  "demo_camera_url_request url loc =
     \<lparr>cookies = [(''accessToken'', ''token-of-1'')], json = Inr (demo_camera_url_body url loc)\<rparr>"

definition demo_camera_body :: "rat \<Rightarrow> jsval" where
  "demo_camera_body loc = JObj [(''name'', JStr ''Gate''), (''streamUrl'', JStr []), (''locationId'', JNum loc)]"

definition demo_camera_request :: "rat \<Rightarrow> request" where
  "demo_camera_request loc = \<lparr>cookies = [(''accessToken'', ''token-of-1'')], json = Inr (demo_camera_body loc)\<rparr>"

text \<open>
  The same body under a cookie with an empty value, under a token that \<open>verify\<close>
  rejects, and an empty object as the body, with the good token and with no cookie.
\<close>

definition demo_empty_cookie_request :: request where
  "demo_empty_cookie_request = \<lparr>cookies = [(''accessToken'', [])], json = Inr (demo_camera_body 5)\<rparr>"

definition demo_bad_token_request :: request where
  "demo_bad_token_request = \<lparr>cookies = [(''accessToken'', ''forged'')], json = Inr (demo_camera_body 5)\<rparr>"

definition demo_invalid_camera_request :: request where
  "demo_invalid_camera_request = \<lparr>cookies = [(''accessToken'', ''token-of-1'')], json = Inr (JObj [])\<rparr>"

definition demo_no_cookie_request :: request where
  "demo_no_cookie_request = \<lparr>cookies = [], json = Inr (JObj [])\<rparr>"

definition demo_forged_invalid_request :: request where
  "demo_forged_invalid_request = \<lparr>cookies = [(''accessToken'', ''forged'')], json = Inr (JObj [])\<rparr>"

text \<open>A login with email \<open>em\<close> and password \<open>pw\<close>.\<close>

definition demo_login_body :: "string \<Rightarrow> string \<Rightarrow> jsval" where
  "demo_login_body em pw = JObj [(''email'', JStr em), (''password'', JStr pw)]"

definition demo_login_request :: "string \<Rightarrow> string \<Rightarrow> request" where
  "demo_login_request em pw = \<lparr>cookies = [], json = Inr (demo_login_body em pw)\<rparr>"

section \<open>What one query does to the state\<close>

lemma db_query_run:
  "pool_run L q ps (store w) = (res, d) \<Longrightarrow>
   db_query L q ps w =
     ((case res of Inl e \<Rightarrow> Inl (OtherError e) | Inr rows \<Rightarrow> Inr rows),
      \<lparr>store = d, queries = queries w @ [(q, ps)]\<rparr>)"
  by (simp add: db_query_def pool_query_def)

lemma sql_distinct: "insert_camera_sql \<noteq> location_sql"
  by (simp add: insert_camera_sql_def location_sql_def)

section \<open>The camera handler past authentication and validation\<close>

lemma camera_POST_authorized:
  assumes "cookies_get req ''accessToken'' = Some tok" and "tok \<noteq> []"
    and "verify L tok (JWT_ACCESS_SECRET L) = Inr decoded"
    and "json req = Inr b" and "cameraSchema_parse L b = Inr inp"
  shows "camera_POST L req w =
     (case camera_queries L (userId decoded) inp w of
        (Inr res, w') \<Rightarrow> (res, w')
      | (Inl (ZodError z), w') \<Rightarrow> (NextResponse_json (message_body (issue0_message z)) 400, w')
      | (Inl (OtherError e), w') \<Rightarrow> (NextResponse_json (message_body ''Error adding camera'') 500, w'))"
  using assms by (simp add: camera_POST_def camera_try_def)

lemma camera_queries_not_found:
  assumes "pool_run L location_sql [JNum (locationId inp), uid] (store w) = (Inr [], d)"
  shows "camera_queries L uid inp w =
     (Inr (NextResponse_json (message_body ''Location not found or does not belong to user'') 404),
      \<lparr>store = d, queries = queries w @ [(location_sql, [JNum (locationId inp), uid])]\<rparr>)"
  by (simp add: camera_queries_def db_query_run [OF assms])

lemma camera_queries_failed:
  assumes "pool_run L location_sql [JNum (locationId inp), uid] (store w) = (Inl e, d)"
  shows "camera_queries L uid inp w =
     (Inl (OtherError e),
      \<lparr>store = d, queries = queries w @ [(location_sql, [JNum (locationId inp), uid])]\<rparr>)"
  by (simp add: camera_queries_def db_query_run [OF assms])



section \<open>Runs in the example environment\<close>

lemma trim_values:
  "trim [] = []"
  "trim ''rtsp://cam/1'' = ''rtsp://cam/1''"
  "trim '' rtsp://cam/1 '' = ''rtsp://cam/1''"
  by (simp_all add: trim_def js_whitespace_def)

lemma demo_locationId:
  assumes "0 < loc" and "loc = of_int \<lfloor>loc\<rfloor>" and "loc \<le> 9007199254740991"
  shows "cameraSchema_locationId (JNum loc) = Some loc"
  unfolding cameraSchema_locationId_def MAX_SAFE_INTEGER_def using assms by simp

lemma demo_camera_parse:
  assumes "0 < loc" and "loc = of_int \<lfloor>loc\<rfloor>" and "loc \<le> 9007199254740991"
  shows "cameraSchema_parse demo_lib (demo_camera_body loc) =
     Inr \<lparr>name = ''Gate'', streamUrl = Some [], locationId = loc\<rparr>"
  by (simp add: cameraSchema_parse_def cameraSchema_name_def cameraSchema_streamUrl_def
      get_prop_def demo_camera_body_def demo_locationId [OF assms] trim_values demo_lib_def)


lemma demo_camera_authorized:
  "cookies_get (demo_camera_request loc) ''accessToken'' = Some ''token-of-1''"
  "verify demo_lib ''token-of-1'' (JWT_ACCESS_SECRET demo_lib) = Inr (PayloadObject [(''userId'', JNum 1)])"
  "json (demo_camera_request loc) = Inr (demo_camera_body loc)"
  "userId (PayloadObject [(''userId'', JNum 1)]) = JNum 1"
  "cookies_get (demo_camera_url_request url loc) ''accessToken'' = Some ''token-of-1''"
  "json (demo_camera_url_request url loc) = Inr (demo_camera_url_body url loc)"
  by (simp_all add: cookies_get_def demo_camera_request_def demo_camera_url_request_def
      demo_lib_def userId_def get_prop_def)

lemma demo_location_check:
  "pool_run demo_lib location_sql [JNum loc, JNum 1] d =
     (Inr (if loc = 5 then [[(''id'', JNum 5)]] else []), d)"
  by (simp add: demo_lib_def demo_run_def users_sql_def location_sql_def)

section \<open>The shim forwards to the pool\<close>

text \<open>
  C8: for every query text and parameter list, \<open>db.query(text, params)\<close> hands both
  unchanged to \<open>pool.query\<close> and returns its result: the two are the same function, on
  every state of the database.
\<close>

theorem db_query_is_pool_query:
  "db_query L = pool_query L \<and> db_query L qtext params w = pool_query L qtext params w"
  by (simp add: db_query_def fun_eq_iff)

section \<open>A camera is inserted only at a location the user owns\<close>

text \<open>
  C1: take a request to POST /api/configs/camera that passes authentication (a non-empty
  accessToken cookie that \<open>verify\<close> accepts) and schema validation, and let \<open>found\<close> be the
  outcome of the ownership query for the body's locationId and the token's userId. If
  the handler hands an INSERT into cameras to the pool, the ownership query returned at
  least one row. If it returned zero rows, the response is 404 with the message
  "Location not found or does not belong to user" and the ownership query is the only
  query of the request.
\<close>

theorem camera_insert_only_for_owned_location:
  assumes "cookies_get req ''accessToken'' = Some tok" and "tok \<noteq> []"
    and "verify L tok (JWT_ACCESS_SECRET L) = Inr decoded"
    and "json req = Inr b" and "cameraSchema_parse L b = Inr inp"
    and "pool_run L location_sql [JNum (locationId inp), userId decoded] (store w) = (found, d)"
  shows "((\<exists>ps. (insert_camera_sql, ps) \<in> set (drop (length (queries w)) (queries (snd (camera_POST L req w)))))
            \<longrightarrow> (\<exists>r rs. found = Inr (r # rs)))
       \<and> (found = Inr [] \<longrightarrow>
            fst (camera_POST L req w) =
              NextResponse_json (message_body ''Location not found or does not belong to user'') 404
          \<and> snd (camera_POST L req w) =
              \<lparr>store = d, queries = queries w @ [(location_sql, [JNum (locationId inp), userId decoded])]\<rparr>)"
proof -
  note post = camera_POST_authorized [OF assms(1-5)]
  show ?thesis
  proof (cases found)
    case (Inl e)
    with assms(6) have "camera_queries L (userId decoded) inp w =
       (Inl (OtherError e), \<lparr>store = d, queries = queries w @ [(location_sql, [JNum (locationId inp), userId decoded])]\<rparr>)"
      by (simp add: camera_queries_failed)
    with Inl show ?thesis by (simp add: post sql_distinct)
  next
    case (Inr rows)
    show ?thesis
    proof (cases rows)
      case Nil
      with Inr assms(6) have "camera_queries L (userId decoded) inp w =
        (Inr (NextResponse_json (message_body ''Location not found or does not belong to user'') 404),
         \<lparr>store = d, queries = queries w @ [(location_sql, [JNum (locationId inp), userId decoded])]\<rparr>)"
        by (simp add: camera_queries_not_found)
      with Inr Nil show ?thesis by (simp add: post sql_distinct)
    next
      case (Cons r rs)
      with Inr show ?thesis by simp
    qed
  qed
qed

text \<open>User 1 does not own location 6: the answer is 404 after the one SELECT.\<close>

theorem camera_insert_only_for_owned_location_witness:
  "fst (camera_POST demo_lib (demo_camera_request 6) demo_world) =
     NextResponse_json (message_body ''Location not found or does not belong to user'') 404
   \<and> snd (camera_POST demo_lib (demo_camera_request 6) demo_world) =
     \<lparr>store = 0, queries = [(location_sql, [JNum 6, JNum 1])]\<rparr>"
proof -
  have p: "cameraSchema_parse demo_lib (demo_camera_body 6) =
     Inr \<lparr>name = ''Gate'', streamUrl = Some [], locationId = 6\<rparr>"
    by (rule demo_camera_parse) simp_all
  have q: "pool_run demo_lib location_sql
      [JNum (locationId \<lparr>name = ''Gate'', streamUrl = Some [], locationId = 6\<rparr>),
       userId (PayloadObject [(''userId'', JNum 1)])] (store demo_world) = (Inr [], 0)"
    by (simp add: demo_camera_authorized demo_location_check demo_world_def)
  show ?thesis
    using camera_insert_only_for_owned_location
      [OF demo_camera_authorized(1) _ demo_camera_authorized(2) demo_camera_authorized(3) p q]
    by (simp add: demo_world_def demo_camera_authorized)
qed

section \<open>The stream\_url parameter of the INSERT\<close>





section \<open>The camera handler without a usable token\<close>

text \<open>
  C3, as the code has it: a request to POST /api/configs/camera whose accessToken cookie
  is absent, or present with the empty string as its value, receives 401 with the message
  "Unauthorized" and no query has been made; a request whose cookie has a non-empty value
  that fails JWT verification receives 500 with the message "Error adding camera", again
  with no query made. The catch block answers 500 to every thrown error that is not a
  ZodError.
\<close>

theorem camera_unauthorized_or_error:
  "(cookies_get req ''accessToken'' = None \<or> cookies_get req ''accessToken'' = Some []
      \<longrightarrow> camera_POST L req w = (NextResponse_json (message_body ''Unauthorized'') 401, w))
   \<and> (\<forall>tok e. cookies_get req ''accessToken'' = Some tok \<and> tok \<noteq> []
          \<and> verify L tok (JWT_ACCESS_SECRET L) = Inl e
      \<longrightarrow> camera_POST L req w = (NextResponse_json (message_body ''Error adding camera'') 500, w))
   \<and> (\<forall>tok e w'. cookies_get req ''accessToken'' = Some tok \<and> tok \<noteq> []
          \<and> camera_try L req tok w = (Inl (OtherError e), w')
      \<longrightarrow> camera_POST L req w = (NextResponse_json (message_body ''Error adding camera'') 500, w'))"
  by (auto simp add: camera_POST_def camera_try_def)

theorem camera_unauthorized_or_error_witness:
  "camera_POST demo_lib demo_bad_token_request demo_world =
     (NextResponse_json (message_body ''Error adding camera'') 500, demo_world)
   \<and> camera_POST demo_lib demo_empty_cookie_request demo_world =
     (NextResponse_json (message_body ''Unauthorized'') 401, demo_world)"
proof -
  have a: "cookies_get demo_bad_token_request ''accessToken'' = Some ''forged''"
    by (simp add: cookies_get_def demo_bad_token_request_def)
  have b: "verify demo_lib ''forged'' (JWT_ACCESS_SECRET demo_lib) = Inl ''JsonWebTokenError''"
    by (simp add: demo_lib_def)
  have c: "cookies_get demo_empty_cookie_request ''accessToken'' = Some []"
    by (simp add: cookies_get_def demo_empty_cookie_request_def)
  show ?thesis
    using camera_unauthorized_or_error [of demo_bad_token_request demo_lib demo_world]
      camera_unauthorized_or_error [of demo_empty_cookie_request demo_lib demo_world] a b c
    by simp
qed

text \<open>
  The claim as stated fails for a cookie that is present with an empty value: the cookie
  is there, \<open>verify\<close> rejects the empty token, and the answer is 401 "Unauthorized", not
  500 "Error adding camera".
\<close>

theorem camera_empty_cookie_counterexample:
  "cookies_get demo_empty_cookie_request ''accessToken'' = Some []
   \<and> verify demo_lib [] (JWT_ACCESS_SECRET demo_lib) = Inl ''JsonWebTokenError''
   \<and> status (fst (camera_POST demo_lib demo_empty_cookie_request demo_world)) = 401
   \<and> body (fst (camera_POST demo_lib demo_empty_cookie_request demo_world)) = message_body ''Unauthorized''
   \<and> fst (camera_POST demo_lib demo_empty_cookie_request demo_world)
       \<noteq> NextResponse_json (message_body ''Error adding camera'') 500"
  by (simp add: cookies_get_def demo_empty_cookie_request_def demo_lib_def camera_POST_def
      NextResponse_json_def)

section \<open>A body the schema rejects\<close>

text \<open>
  The bodies the two schemas accept. Login: an object whose email is a string in email
  format and whose password is a string of at least 6 characters. Camera: an object whose
  name is a non-empty string, whose streamUrl is absent, a URL (white space around it
  aside) or the empty string, and whose locationId is a positive integer of the safe
  range. Every other body is rejected with a ZodError.
\<close>

lemma schema_parse_accepts:
  "schema_parse L b = Inr c \<longleftrightarrow>
     (\<exists>fs. b = JObj fs
        \<and> get_prop fs ''email'' = JStr (email c) \<and> z_email L (email c)
        \<and> get_prop fs ''password'' = JStr (password c) \<and> 6 \<le> length (password c))"
  by (cases c)
    (auto simp add: schema_parse_def schema_email_def schema_password_def
      split: jsval.splits option.splits if_splits)

lemma cameraSchema_parse_accepts:
  "cameraSchema_parse L b = Inr c \<longleftrightarrow>
     (\<exists>fs. b = JObj fs
        \<and> get_prop fs ''name'' = JStr (name c) \<and> name c \<noteq> []
        \<and> (case streamUrl c of
              None \<Rightarrow> get_prop fs ''streamUrl'' = JUndefined
            | Some u \<Rightarrow> \<exists>s. get_prop fs ''streamUrl'' = JStr s
                         \<and> (if z_url L (trim s) then u = trim s else s = [] \<and> u = []))
        \<and> get_prop fs ''locationId'' = JNum (locationId c)
        \<and> locationId c = of_int \<lfloor>locationId c\<rfloor> \<and> 0 < locationId c
        \<and> locationId c \<le> MAX_SAFE_INTEGER)"
  by (cases c)
    (auto simp add: cameraSchema_parse_def cameraSchema_name_def cameraSchema_streamUrl_def
      cameraSchema_locationId_def Suc_le_eq MAX_SAFE_INTEGER_def
      split: jsval.splits option.splits if_splits)

lemma session_POST_invalid:
  assumes "json req = Inr b" and "schema_parse L b = Inl z"
  shows "session_POST L req w = (NextResponse_json (message_body (error_message z)) 400, w)"
  using assms by (simp add: session_POST_def session_try_def)

lemma camera_try_invalid:
  assumes "json req = Inr b" and "cameraSchema_parse L b = Inl z"
  shows "camera_try L req tok w =
     (case verify L tok (JWT_ACCESS_SECRET L) of
        Inl e \<Rightarrow> (Inl (OtherError e), w) | Inr decoded \<Rightarrow> (Inl (ZodError z), w))"
  using assms by (simp add: camera_try_def split: sum.splits)

lemma response_simps:
  "status (NextResponse_json v st) = st" "body (NextResponse_json v st) = v"
  "headers (NextResponse_json v st) = [(''content-type'', ''application/json'')]"
  by (simp_all add: NextResponse_json_def)

text \<open>
  C4, as the code has it: a request to POST /api/auth/session whose JSON body fails the
  login schema is answered 400 and no SQL query is executed. A request to
  POST /api/configs/camera whose JSON body fails the camera schema is answered 400 when
  it carries a non-empty accessToken cookie that passes JWT verification, 401 when the
  cookie is absent or empty, and 500 when the cookie is non-empty and fails JWT
  verification; in each of the three cases no SQL query is executed.
\<close>

theorem invalid_body_400_no_query:
  "(\<forall>b z. json req = Inr b \<and> schema_parse L b = Inl z
      \<longrightarrow> status (fst (session_POST L req w)) = 400
        \<and> body (fst (session_POST L req w)) = message_body (error_message z)
        \<and> snd (session_POST L req w) = w)
   \<and> (\<forall>b z tok decoded. json req = Inr b \<and> cameraSchema_parse L b = Inl z
          \<and> cookies_get req ''accessToken'' = Some tok \<and> tok \<noteq> []
          \<and> verify L tok (JWT_ACCESS_SECRET L) = Inr decoded
      \<longrightarrow> status (fst (camera_POST L req w)) = 400
        \<and> body (fst (camera_POST L req w)) = message_body (issue0_message z)
        \<and> snd (camera_POST L req w) = w)
   \<and> (\<forall>b z. json req = Inr b \<and> cameraSchema_parse L b = Inl z
          \<and> (cookies_get req ''accessToken'' = None \<or> cookies_get req ''accessToken'' = Some [])
      \<longrightarrow> status (fst (camera_POST L req w)) = 401
        \<and> body (fst (camera_POST L req w)) = message_body ''Unauthorized''
        \<and> snd (camera_POST L req w) = w)
   \<and> (\<forall>b z tok e. json req = Inr b \<and> cameraSchema_parse L b = Inl z
          \<and> cookies_get req ''accessToken'' = Some tok \<and> tok \<noteq> []
          \<and> verify L tok (JWT_ACCESS_SECRET L) = Inl e
      \<longrightarrow> status (fst (camera_POST L req w)) = 500
        \<and> body (fst (camera_POST L req w)) = message_body ''Error adding camera''
        \<and> snd (camera_POST L req w) = w)"
proof (intro conjI allI impI)
  fix b z
  assume "json req = Inr b \<and> schema_parse L b = Inl z"
  then have "session_POST L req w = (NextResponse_json (message_body (error_message z)) 400, w)"
    by (simp add: session_POST_invalid)
  then show "status (fst (session_POST L req w)) = 400"
    and "body (fst (session_POST L req w)) = message_body (error_message z)"
    and "snd (session_POST L req w) = w"
    by (simp_all add: response_simps)
next
  fix b z tok decoded
  assume a: "json req = Inr b \<and> cameraSchema_parse L b = Inl z
          \<and> cookies_get req ''accessToken'' = Some tok \<and> tok \<noteq> []
          \<and> verify L tok (JWT_ACCESS_SECRET L) = Inr decoded"
  then have "camera_try L req tok w = (Inl (ZodError z), w)"
    by (simp add: camera_try_invalid)
  with a have "camera_POST L req w = (NextResponse_json (message_body (issue0_message z)) 400, w)"
    by (simp add: camera_POST_def)
  then show "status (fst (camera_POST L req w)) = 400"
    and "body (fst (camera_POST L req w)) = message_body (issue0_message z)"
    and "snd (camera_POST L req w) = w"
    by (simp_all add: response_simps)
next
  fix b z
  assume "json req = Inr b \<and> cameraSchema_parse L b = Inl z
          \<and> (cookies_get req ''accessToken'' = None \<or> cookies_get req ''accessToken'' = Some [])"
  then have "camera_POST L req w = (NextResponse_json (message_body ''Unauthorized'') 401, w)"
    by (auto simp add: camera_POST_def)
  then show "status (fst (camera_POST L req w)) = 401"
    and "body (fst (camera_POST L req w)) = message_body ''Unauthorized''"
    and "snd (camera_POST L req w) = w"
    by (simp_all add: response_simps)
next
  fix b z tok e
  assume a: "json req = Inr b \<and> cameraSchema_parse L b = Inl z
          \<and> cookies_get req ''accessToken'' = Some tok \<and> tok \<noteq> []
          \<and> verify L tok (JWT_ACCESS_SECRET L) = Inl e"
  then have "camera_try L req tok w = (Inl (OtherError e), w)"
    by (simp add: camera_try_invalid)
  with a have "camera_POST L req w = (NextResponse_json (message_body ''Error adding camera'') 500, w)"
    by (simp add: camera_POST_def)
  then show "status (fst (camera_POST L req w)) = 500"
    and "body (fst (camera_POST L req w)) = message_body ''Error adding camera''"
    and "snd (camera_POST L req w) = w"
    by (simp_all add: response_simps)
qed

text \<open>
  A login with a malformed email and a short password; an empty object as camera body
  with the good token, with no cookie and with a forged token; and a camera body whose
  locationId is 2^53, with the good token.
\<close>

theorem invalid_body_400_no_query_witness:
  "status (fst (session_POST demo_lib (demo_login_request ''ann'' ''abc'') demo_world)) = 400
   \<and> snd (session_POST demo_lib (demo_login_request ''ann'' ''abc'') demo_world) = demo_world
   \<and> status (fst (camera_POST demo_lib demo_invalid_camera_request demo_world)) = 400
   \<and> snd (camera_POST demo_lib demo_invalid_camera_request demo_world) = demo_world
   \<and> status (fst (camera_POST demo_lib demo_no_cookie_request demo_world)) = 401
   \<and> snd (camera_POST demo_lib demo_no_cookie_request demo_world) = demo_world
   \<and> status (fst (camera_POST demo_lib demo_forged_invalid_request demo_world)) = 500
   \<and> snd (camera_POST demo_lib demo_forged_invalid_request demo_world) = demo_world
   \<and> status (fst (camera_POST demo_lib (demo_camera_request 9007199254740992) demo_world)) = 400
   \<and> snd (camera_POST demo_lib (demo_camera_request 9007199254740992) demo_world) = demo_world"
proof -
  let ?z = "ZodIssues ''Invalid input'' [] ''Invalid input''"
  have a: "json (demo_login_request ''ann'' ''abc'') = Inr (demo_login_body ''ann'' ''abc'')"
    by (simp add: demo_login_request_def)
  have b: "schema_parse demo_lib (demo_login_body ''ann'' ''abc'') = Inl ?z"
    by (simp add: schema_parse_def schema_email_def schema_password_def get_prop_def
        demo_login_body_def demo_lib_def)
  have c: "json demo_invalid_camera_request = Inr (JObj [])"
    "json demo_no_cookie_request = Inr (JObj [])"
    "json demo_forged_invalid_request = Inr (JObj [])"
    by (simp_all add: demo_invalid_camera_request_def demo_no_cookie_request_def
        demo_forged_invalid_request_def)
  have d: "cameraSchema_parse demo_lib (JObj []) = Inl ?z"
    by (simp add: cameraSchema_parse_def cameraSchema_name_def get_prop_def demo_lib_def)
  have e: "cookies_get demo_invalid_camera_request ''accessToken'' = Some ''token-of-1''"
    "cookies_get demo_no_cookie_request ''accessToken'' = None"
    "cookies_get demo_forged_invalid_request ''accessToken'' = Some ''forged''"
    by (simp_all add: cookies_get_def demo_invalid_camera_request_def demo_no_cookie_request_def
        demo_forged_invalid_request_def)
  have f: "verify demo_lib ''forged'' (JWT_ACCESS_SECRET demo_lib) = Inl ''JsonWebTokenError''"
    by (simp add: demo_lib_def)
  have g: "cameraSchema_parse demo_lib (demo_camera_body 9007199254740992) = Inl ?z"
    by (simp add: cameraSchema_parse_def cameraSchema_name_def cameraSchema_streamUrl_def
        cameraSchema_locationId_def MAX_SAFE_INTEGER_def get_prop_def demo_camera_body_def
        trim_values demo_lib_def)
  show ?thesis
    using invalid_body_400_no_query [of "demo_login_request ''ann'' ''abc''" demo_lib demo_world]
      invalid_body_400_no_query [of demo_invalid_camera_request demo_lib demo_world]
      invalid_body_400_no_query [of demo_no_cookie_request demo_lib demo_world]
      invalid_body_400_no_query [of demo_forged_invalid_request demo_lib demo_world]
      invalid_body_400_no_query [of "demo_camera_request 9007199254740992" demo_lib demo_world]
      a b c d e f g demo_camera_authorized(1,2,3)
    by simp
qed

text \<open>
  The claim as stated fails for the camera route: a request with no accessToken cookie
  whose body the camera schema rejects is answered 401, not 400.
\<close>

theorem invalid_body_without_cookie_counterexample:
  "json demo_no_cookie_request = Inr (JObj [])
   \<and> cameraSchema_parse demo_lib (JObj []) = Inl (ZodIssues ''Invalid input'' [] ''Invalid input'')
   \<and> status (fst (camera_POST demo_lib demo_no_cookie_request demo_world)) = 401
   \<and> status (fst (camera_POST demo_lib demo_no_cookie_request demo_world)) \<noteq> 400"
  by (simp add: demo_no_cookie_request_def cameraSchema_parse_def cameraSchema_name_def
      get_prop_def demo_lib_def camera_POST_def cookies_get_def NextResponse_json_def)

section \<open>Signing\<close>

lemma ms_values: "ms ''15m'' = Some 900000" "ms ''7d'' = Some 604800000"
  by (simp_all add: ms_def ms_number_def ms_unit_def ms_units_def is_digit_def to_lower_def Let_def)

lemma timespan_values:
  "timespan ''15m'' t = Some (int t + 900)" "timespan ''7d'' t = Some (int t + 604800)"
  by (simp_all add: timespan_def ms_values)

text \<open>
  What a token that \<open>sign\<close> returns is: the signature, under the configured key, of the
  payload with the time of signing as \<open>iat\<close> and that time plus 900 seconds ("15m") or
  plus 604800 seconds ("7d") as \<open>exp\<close>.
\<close>

lemma sign_15m:
  "sign L payload secret ''15m'' ts = Inr tok \<longleftrightarrow>
     (\<exists>k. secret = Some k \<and> k \<noteq> []
        \<and> jws_sign L (JObj (payload @ [(''iat'', JNum (of_nat ts)),
                                        (''exp'', JNum (of_nat ts + 900))])) k = Inr tok)"
  by (auto simp add: sign_def timespan_values split: option.splits)

lemma sign_7d:
  "sign L payload secret ''7d'' ts = Inr tok \<longleftrightarrow>
     (\<exists>k. secret = Some k \<and> k \<noteq> []
        \<and> jws_sign L (JObj (payload @ [(''iat'', JNum (of_nat ts)),
                                        (''exp'', JNum (of_nat ts + 604800))])) k = Inr tok)"
  by (auto simp add: sign_def timespan_values split: option.splits)

lemma sign_no_secret:
  "sign L payload None expiresIn ts = Inl ''secretOrPrivateKey must have a value''"
  "sign L payload (Some []) expiresIn ts = Inl ''secretOrPrivateKey must have a value''"
  by (simp_all add: sign_def)

section \<open>The login handler on a valid body\<close>

lemma login_success_cases:
  "login_success L uid =
     (case sign L [(''userId'', uid)] (JWT_ACCESS_SECRET L) ''15m'' (clock L 0) of
        Inl e \<Rightarrow> Inl (OtherError e)
      | Inr a \<Rightarrow>
          (case sign L [(''userId'', uid)] (JWT_REFRESH_SECRET L) ''7d'' (clock L 1) of
             Inl e \<Rightarrow> Inl (OtherError e)
           | Inr t \<Rightarrow>
               Inr \<lparr>status = 200,
                    headers = [(''Set-Cookie'',
                      serialize L ''accessToken'' a
                        \<lparr>httpOnly = True, secure = production L, sameSite = ''strict'', maxAge = 900, path = ''/''\<rparr>
                      @ '', '' @
                      serialize L ''refreshToken'' t
                        \<lparr>httpOnly = True, secure = production L, sameSite = ''strict'', maxAge = 604800, path = ''/''\<rparr>),
                      (''content-type'', ''text/plain;charset=UTF-8'')],
                    body = JObj [(''message'', JStr ''Login successful'')]\<rparr>))"
  by (simp add: login_success_def NextResponse_new_def login_cookies_def serialized_def
      message_body_def split: sum.splits)

lemma login_success_not_zod: "login_success L uid \<noteq> Inl (ZodError z)"
  by (simp add: login_success_def split: sum.splits)

lemma session_POST_valid:
  assumes "json req = Inr b" and "schema_parse L b = Inr cred"
    and "pool_run L users_sql [JStr (email cred)] (store w) = (res, d)"
  shows "session_POST L req w =
     ((case res of
         Inl e \<Rightarrow> NextResponse_json (message_body ''Internal server error'') 500
       | Inr [] \<Rightarrow> invalid_credentials
       | Inr (r # rs) \<Rightarrow>
           (case bcrypt_compare L (password cred) (get_prop r ''password'') of
              Inl e \<Rightarrow> NextResponse_json (message_body ''Internal server error'') 500
            | Inr passwordMatch \<Rightarrow>
                if passwordMatch
                then (case login_success L (get_prop r ''id'') of
                        Inl e \<Rightarrow> NextResponse_json (message_body ''Internal server error'') 500
                      | Inr res \<Rightarrow> res)
                else invalid_credentials)),
      \<lparr>store = d, queries = queries w @ [(users_sql, [JStr (email cred)])]\<rparr>)"
  using assms(1,2) login_success_not_zod [of L]
  by (simp add: session_POST_def session_try_def db_query_run [OF assms(3)]
      split: sum.splits list.splits exn.splits)

lemma status_simps:
  "status invalid_credentials = 401" "body invalid_credentials = message_body ''Invalid credentials''"
  "headers invalid_credentials = [(''content-type'', ''application/json'')]"
  by (simp_all add: invalid_credentials_def response_simps)

lemma login_success_status:
  "login_success L uid = Inr res \<Longrightarrow> status res = 200"
  by (auto simp add: login_success_cases split: sum.splits)

section \<open>Runs of the login handler in the example environment\<close>

lemma demo_login_parse:
  assumes "CHR ''@'' \<in> set em" and "6 \<le> length pw"
  shows "schema_parse demo_lib (demo_login_body em pw) = Inr \<lparr>email = em, password = pw\<rparr>"
    and "schema_parse demo_lib_no_secret (demo_login_body em pw) = Inr \<lparr>email = em, password = pw\<rparr>"
  using assms
  by (simp_all add: schema_parse_def schema_email_def schema_password_def get_prop_def
      demo_login_body_def demo_lib_def demo_lib_no_secret_def)

lemma demo_login_json: "json (demo_login_request em pw) = Inr (demo_login_body em pw)"
  by (simp add: demo_login_request_def)

lemma demo_users_check:
  "pool_run demo_lib users_sql [JStr em] d =
     (Inr (if em = ''ann@example.com'' then [demo_user] else []), d)"
  "pool_run demo_lib_no_secret users_sql [JStr em] d =
     (Inr (if em = ''ann@example.com'' then [demo_user] else []), d)"
  by (simp_all add: demo_lib_def demo_lib_no_secret_def demo_run_def)

lemma demo_compare:
  "bcrypt_compare demo_lib pw (get_prop demo_user ''password'') = Inr (''hash:secret1'' = ''hash:'' @ pw)"
  "bcrypt_compare demo_lib_no_secret pw (get_prop demo_user ''password'') = Inr (''hash:secret1'' = ''hash:'' @ pw)"
  by (simp_all add: demo_lib_def demo_lib_no_secret_def demo_user_def get_prop_def)

lemma show_values:
  "show_int (- 1) = ''-1''" "show_int 900 = ''900''" "show_int 604800 = ''604800''"
  "show_int 1900 = ''1900''" "show_int 605801 = ''605801''"
  by (simp_all add: show_int_def show_nat.simps)

lemma demo_clock:
  "clock demo_lib k = 1000 + k" "clock demo_lib_no_secret k = 1000 + k"
  by (simp_all add: demo_lib_def demo_lib_no_secret_def)

lemma demo_sign:
  "sign demo_lib [(''userId'', uid)] (JWT_ACCESS_SECRET demo_lib) ''15m'' 1000 = Inr ''access-secret.exp=1900''"
  "sign demo_lib [(''userId'', uid)] (JWT_REFRESH_SECRET demo_lib) ''7d'' 1001 = Inr ''refresh-secret.exp=605801''"
  "sign demo_lib_no_secret [(''userId'', uid)] (JWT_ACCESS_SECRET demo_lib_no_secret) ''15m'' ts
     = Inl ''secretOrPrivateKey must have a value''"
  by (simp_all add: sign_def timespan_values demo_lib_def demo_lib_no_secret_def demo_jws_sign_def
      get_prop_def show_values)

lemma demo_serialize_values:
  "serialize demo_lib n v \<lparr>httpOnly = True, secure = production demo_lib, sameSite = ''strict'', maxAge = 900, path = ''/''\<rparr>
     = n @ ''='' @ v @ ''; Max-Age=900; Path=/; HttpOnly; Secure; SameSite=strict''"
  "serialize demo_lib n v \<lparr>httpOnly = True, secure = production demo_lib, sameSite = ''strict'', maxAge = 604800, path = ''/''\<rparr>
     = n @ ''='' @ v @ ''; Max-Age=604800; Path=/; HttpOnly; Secure; SameSite=strict''"
  "serialize demo_lib n v \<lparr>httpOnly = True, secure = production demo_lib, sameSite = ''strict'', maxAge = - 1, path = ''/''\<rparr>
     = n @ ''='' @ v @ ''; Max-Age=-1; Path=/; HttpOnly; Secure; SameSite=strict''"
  by (simp_all add: demo_lib_def demo_serialize_def production_def show_values)

lemma demo_login_run:
  "session_POST demo_lib (demo_login_request ''ann@example.com'' ''secret1'') demo_world =
     (\<lparr>status = 200,
       headers = [(''Set-Cookie'',
         ''accessToken=access-secret.exp=1900; Max-Age=900; Path=/; HttpOnly; Secure; SameSite=strict, refreshToken=refresh-secret.exp=605801; Max-Age=604800; Path=/; HttpOnly; Secure; SameSite=strict''),
         (''content-type'', ''text/plain;charset=UTF-8'')],
       body = JObj [(''message'', JStr ''Login successful'')]\<rparr>,
      \<lparr>store = 0, queries = [(users_sql, [JStr ''ann@example.com''])]\<rparr>)"
proof -
  have p: "schema_parse demo_lib (demo_login_body ''ann@example.com'' ''secret1'') =
      Inr \<lparr>email = ''ann@example.com'', password = ''secret1''\<rparr>"
    by (rule demo_login_parse) simp_all
  have q: "pool_run demo_lib users_sql [JStr (email \<lparr>email = ''ann@example.com'', password = ''secret1''\<rparr>)]
      (store demo_world) = (Inr [demo_user], 0)"
    by (simp add: demo_users_check demo_world_def)
  show ?thesis
    unfolding session_POST_valid [OF demo_login_json p q]
    by (simp add: demo_compare login_success_cases demo_clock demo_sign demo_serialize_values demo_world_def)
qed

section \<open>Every response of the login handler\<close>

text \<open>
  The login handler answers 400, 401 or 500 with a JSON message, or it has signed both
  tokens and answers with the two cookies.
\<close>

lemma session_POST_response:
  "(\<exists>m st. (st = 400 \<or> st = 401 \<or> st = 500)
       \<and> fst (session_POST L req w) = NextResponse_json (message_body m) st)
   \<or> (\<exists>uid a t.
         sign L [(''userId'', uid)] (JWT_ACCESS_SECRET L) ''15m'' (clock L 0) = Inr a
       \<and> sign L [(''userId'', uid)] (JWT_REFRESH_SECRET L) ''7d'' (clock L 1) = Inr t
       \<and> fst (session_POST L req w) =
           \<lparr>status = 200,
            headers = [(''Set-Cookie'',
              serialize L ''accessToken'' a
                \<lparr>httpOnly = True, secure = production L, sameSite = ''strict'', maxAge = 900, path = ''/''\<rparr>
              @ '', '' @
              serialize L ''refreshToken'' t
                \<lparr>httpOnly = True, secure = production L, sameSite = ''strict'', maxAge = 604800, path = ''/''\<rparr>),
              (''content-type'', ''text/plain;charset=UTF-8'')],
            body = JObj [(''message'', JStr ''Login successful'')]\<rparr>)"
proof (cases "session_try L req w")
  case (Pair out w')
  show ?thesis
  proof (cases out)
    case (Inl x)
    with Pair show ?thesis
      by (cases x) (auto simp add: session_POST_def)
  next
    case (Inr res)
    with Pair have post: "fst (session_POST L req w) = res"
      by (simp add: session_POST_def)
    from Pair Inr have "res = invalid_credentials \<or> (\<exists>uid. login_success L uid = Inr res)"
      by (auto simp add: session_try_def split: sum.splits prod.splits list.splits if_splits)
    then show ?thesis
    proof
      assume "res = invalid_credentials"
      with post show ?thesis
        by (auto simp add: invalid_credentials_def)
    next
      assume "\<exists>uid. login_success L uid = Inr res"
      then obtain uid where "login_success L uid = Inr res" ..
      then obtain a t where
        "sign L [(''userId'', uid)] (JWT_ACCESS_SECRET L) ''15m'' (clock L 0) = Inr a"
        "sign L [(''userId'', uid)] (JWT_REFRESH_SECRET L) ''7d'' (clock L 1) = Inr t"
        "res =
           \<lparr>status = 200,
            headers = [(''Set-Cookie'',
              serialize L ''accessToken'' a
                \<lparr>httpOnly = True, secure = production L, sameSite = ''strict'', maxAge = 900, path = ''/''\<rparr>
              @ '', '' @
              serialize L ''refreshToken'' t
                \<lparr>httpOnly = True, secure = production L, sameSite = ''strict'', maxAge = 604800, path = ''/''\<rparr>),
              (''content-type'', ''text/plain;charset=UTF-8'')],
            body = JObj [(''message'', JStr ''Login successful'')]\<rparr>"
        by (auto simp add: login_success_cases split: sum.splits)
      with post show ?thesis by blast
    qed
  qed
qed

section \<open>Invalid credentials\<close>

text \<open>
  C2, as the code has it: take a schema-valid request to POST /api/auth/session and let
  \<open>res\<close> be the outcome of the users query for its email. The response has status 401
  exactly when the query returned zero rows or \<open>bcrypt.compare\<close> of the password with the
  first row's hash returned false, and a 401 response carries the message
  "Invalid credentials". When a row exists and the comparison returns true, the response
  is 200 with the message "Login successful" and a Set-Cookie header made of the
  serialized accessToken and refreshToken cookies, provided both calls of \<open>sign\<close> return;
  if one of them throws, as it does when JWT\_ACCESS\_SECRET or JWT\_REFRESH\_SECRET is unset
  or empty, the response is 500 with the message "Internal server error".
\<close>

theorem login_invalid_credentials_iff:
  assumes "json req = Inr b" and "schema_parse L b = Inr cred"
    and "pool_run L users_sql [JStr (email cred)] (store w) = (res, d)"
  shows "(status (fst (session_POST L req w)) = 401 \<longleftrightarrow>
            res = Inr [] \<or>
            (\<exists>r rs. res = Inr (r # rs) \<and> bcrypt_compare L (password cred) (get_prop r ''password'') = Inr False))
       \<and> (status (fst (session_POST L req w)) = 401 \<longrightarrow>
            fst (session_POST L req w) = NextResponse_json (message_body ''Invalid credentials'') 401)
       \<and> (\<forall>r rs a t. res = Inr (r # rs)
              \<and> bcrypt_compare L (password cred) (get_prop r ''password'') = Inr True
              \<and> sign L [(''userId'', get_prop r ''id'')] (JWT_ACCESS_SECRET L) ''15m'' (clock L 0) = Inr a
              \<and> sign L [(''userId'', get_prop r ''id'')] (JWT_REFRESH_SECRET L) ''7d'' (clock L 1) = Inr t \<longrightarrow>
            fst (session_POST L req w) =
              \<lparr>status = 200,
               headers = [(''Set-Cookie'',
                 serialize L ''accessToken'' a
                   \<lparr>httpOnly = True, secure = production L, sameSite = ''strict'', maxAge = 900, path = ''/''\<rparr>
                 @ '', '' @
                 serialize L ''refreshToken'' t
                   \<lparr>httpOnly = True, secure = production L, sameSite = ''strict'', maxAge = 604800, path = ''/''\<rparr>),
                 (''content-type'', ''text/plain;charset=UTF-8'')],
               body = JObj [(''message'', JStr ''Login successful'')]\<rparr>)
       \<and> (\<forall>r rs e. res = Inr (r # rs)
              \<and> bcrypt_compare L (password cred) (get_prop r ''password'') = Inr True
              \<and> (sign L [(''userId'', get_prop r ''id'')] (JWT_ACCESS_SECRET L) ''15m'' (clock L 0) = Inl e
                  \<or> sign L [(''userId'', get_prop r ''id'')] (JWT_REFRESH_SECRET L) ''7d'' (clock L 1) = Inl e) \<longrightarrow>
            fst (session_POST L req w) = NextResponse_json (message_body ''Internal server error'') 500)"
proof -
  note post = session_POST_valid [OF assms]
  have a: "status (fst (session_POST L req w)) = 401 \<longleftrightarrow>
            res = Inr [] \<or>
            (\<exists>r rs. res = Inr (r # rs) \<and> bcrypt_compare L (password cred) (get_prop r ''password'') = Inr False)"
    by (auto simp add: post status_simps response_simps dest: login_success_status
        split: sum.splits list.splits)
  have b: "status (fst (session_POST L req w)) = 401 \<longrightarrow>
            fst (session_POST L req w) = NextResponse_json (message_body ''Invalid credentials'') 401"
    by (auto simp add: post status_simps response_simps invalid_credentials_def
        dest: login_success_status split: sum.splits list.splits)
  have c: "\<forall>r rs a t. res = Inr (r # rs)
              \<and> bcrypt_compare L (password cred) (get_prop r ''password'') = Inr True
              \<and> sign L [(''userId'', get_prop r ''id'')] (JWT_ACCESS_SECRET L) ''15m'' (clock L 0) = Inr a
              \<and> sign L [(''userId'', get_prop r ''id'')] (JWT_REFRESH_SECRET L) ''7d'' (clock L 1) = Inr t \<longrightarrow>
            fst (session_POST L req w) =
              \<lparr>status = 200,
               headers = [(''Set-Cookie'',
                 serialize L ''accessToken'' a
                   \<lparr>httpOnly = True, secure = production L, sameSite = ''strict'', maxAge = 900, path = ''/''\<rparr>
                 @ '', '' @
                 serialize L ''refreshToken'' t
                   \<lparr>httpOnly = True, secure = production L, sameSite = ''strict'', maxAge = 604800, path = ''/''\<rparr>),
                 (''content-type'', ''text/plain;charset=UTF-8'')],
               body = JObj [(''message'', JStr ''Login successful'')]\<rparr>"
    by (simp add: post login_success_cases)
  have d: "\<forall>r rs e. res = Inr (r # rs)
              \<and> bcrypt_compare L (password cred) (get_prop r ''password'') = Inr True
              \<and> (sign L [(''userId'', get_prop r ''id'')] (JWT_ACCESS_SECRET L) ''15m'' (clock L 0) = Inl e
                  \<or> sign L [(''userId'', get_prop r ''id'')] (JWT_REFRESH_SECRET L) ''7d'' (clock L 1) = Inl e) \<longrightarrow>
            fst (session_POST L req w) = NextResponse_json (message_body ''Internal server error'') 500"
    by (auto simp add: post login_success_cases split: sum.splits)
  from a b c d show ?thesis by blast
qed

text \<open>
  Ann with a wrong password and an unknown Bob are answered 401; Ann with her password
  is logged in.
\<close>

theorem login_invalid_credentials_iff_witness:
  "status (fst (session_POST demo_lib (demo_login_request ''ann@example.com'' ''secret2'') demo_world)) = 401
   \<and> fst (session_POST demo_lib (demo_login_request ''ann@example.com'' ''secret2'') demo_world) =
       NextResponse_json (message_body ''Invalid credentials'') 401
   \<and> status (fst (session_POST demo_lib (demo_login_request ''bob@example.com'' ''secret1'') demo_world)) = 401
   \<and> fst (session_POST demo_lib (demo_login_request ''ann@example.com'' ''secret1'') demo_world) =
       \<lparr>status = 200,
        headers = [(''Set-Cookie'',
          ''accessToken=access-secret.exp=1900; Max-Age=900; Path=/; HttpOnly; Secure; SameSite=strict, refreshToken=refresh-secret.exp=605801; Max-Age=604800; Path=/; HttpOnly; Secure; SameSite=strict''),
          (''content-type'', ''text/plain;charset=UTF-8'')],
        body = JObj [(''message'', JStr ''Login successful'')]\<rparr>"
proof -
  have p1: "schema_parse demo_lib (demo_login_body ''ann@example.com'' ''secret2'') =
      Inr \<lparr>email = ''ann@example.com'', password = ''secret2''\<rparr>"
    by (rule demo_login_parse) simp_all
  have p2: "schema_parse demo_lib (demo_login_body ''bob@example.com'' ''secret1'') =
      Inr \<lparr>email = ''bob@example.com'', password = ''secret1''\<rparr>"
    by (rule demo_login_parse) simp_all
  have p3: "schema_parse demo_lib (demo_login_body ''ann@example.com'' ''secret1'') =
      Inr \<lparr>email = ''ann@example.com'', password = ''secret1''\<rparr>"
    by (rule demo_login_parse) simp_all
  have q1: "pool_run demo_lib users_sql [JStr (email \<lparr>email = ''ann@example.com'', password = ''secret2''\<rparr>)]
      (store demo_world) = (Inr [demo_user], 0)"
    by (simp add: demo_users_check demo_world_def)
  have q2: "pool_run demo_lib users_sql [JStr (email \<lparr>email = ''bob@example.com'', password = ''secret1''\<rparr>)]
      (store demo_world) = (Inr [], 0)"
    by (simp add: demo_users_check demo_world_def)
  have q3: "pool_run demo_lib users_sql [JStr (email \<lparr>email = ''ann@example.com'', password = ''secret1''\<rparr>)]
      (store demo_world) = (Inr [demo_user], 0)"
    by (simp add: demo_users_check demo_world_def)
  have i: "get_prop demo_user ''id'' = JNum 1"
    by (simp add: demo_user_def get_prop_def)
  show ?thesis
    using login_invalid_credentials_iff [OF demo_login_json p1 q1]
      login_invalid_credentials_iff [OF demo_login_json p2 q2]
      login_invalid_credentials_iff [OF demo_login_json p3 q3]
    by (simp add: demo_compare demo_clock demo_sign demo_serialize_values i)
qed

text \<open>
  The claim as stated fails where JWT\_ACCESS\_SECRET is unset: Ann's row exists, the
  comparison of her password returns true, and the answer is 500 "Internal server error".
\<close>

theorem login_without_secret_counterexample:
  "schema_parse demo_lib_no_secret (demo_login_body ''ann@example.com'' ''secret1'') =
      Inr \<lparr>email = ''ann@example.com'', password = ''secret1''\<rparr>
   \<and> pool_run demo_lib_no_secret users_sql [JStr ''ann@example.com''] (store demo_world) = (Inr [demo_user], 0)
   \<and> bcrypt_compare demo_lib_no_secret ''secret1'' (get_prop demo_user ''password'') = Inr True
   \<and> fst (session_POST demo_lib_no_secret (demo_login_request ''ann@example.com'' ''secret1'') demo_world) =
       NextResponse_json (message_body ''Internal server error'') 500
   \<and> status (fst (session_POST demo_lib_no_secret (demo_login_request ''ann@example.com'' ''secret1'') demo_world)) = 500"
proof -
  have p: "schema_parse demo_lib_no_secret (demo_login_body ''ann@example.com'' ''secret1'') =
      Inr \<lparr>email = ''ann@example.com'', password = ''secret1''\<rparr>"
    by (rule demo_login_parse) simp_all
  have q: "pool_run demo_lib_no_secret users_sql
      [JStr (email \<lparr>email = ''ann@example.com'', password = ''secret1''\<rparr>)]
      (store demo_world) = (Inr [demo_user], 0)"
    by (simp add: demo_users_check demo_world_def)
  have "fst (session_POST demo_lib_no_secret (demo_login_request ''ann@example.com'' ''secret1'') demo_world) =
       NextResponse_json (message_body ''Internal server error'') 500"
    unfolding session_POST_valid [OF demo_login_json p q]
    by (simp add: demo_compare login_success_cases demo_clock demo_sign)
  with p q show ?thesis
    by (simp add: demo_compare response_simps)
qed

section \<open>Token and cookie lifetimes\<close>

text \<open>
  C5: on a successful login (the response has status 200) the access token is the one
  \<open>sign\<close> returns for \<open>expiresIn\<close> "15m", whose claims expire 900 seconds after they are
  issued, and the refresh token the one for "7d", whose claims expire 604800 seconds
  after they are issued; the options handed to \<open>serialize\<close> carry these lifetimes as
  maxAge: 15 * 60 = 900 for accessToken and 60 * 60 * 24 * 7 = 604800 for refreshToken.
\<close>

theorem login_token_lifetimes:
  assumes "status (fst (session_POST L req w)) = 200"
  shows "\<exists>uid ka kr a t.
       sign L [(''userId'', uid)] (JWT_ACCESS_SECRET L) ''15m'' (clock L 0) = Inr a
     \<and> sign L [(''userId'', uid)] (JWT_REFRESH_SECRET L) ''7d'' (clock L 1) = Inr t
     \<and> JWT_ACCESS_SECRET L = Some ka \<and> JWT_REFRESH_SECRET L = Some kr
     \<and> jws_sign L (JObj [(''userId'', uid), (''iat'', JNum (of_nat (clock L 0))),
                          (''exp'', JNum (of_nat (clock L 0) + 900))]) ka = Inr a
     \<and> jws_sign L (JObj [(''userId'', uid), (''iat'', JNum (of_nat (clock L 1))),
                          (''exp'', JNum (of_nat (clock L 1) + 604800))]) kr = Inr t
     \<and> fst (session_POST L req w) =
         \<lparr>status = 200,
          headers = [(''Set-Cookie'',
            serialize L ''accessToken'' a
              \<lparr>httpOnly = True, secure = production L, sameSite = ''strict'', maxAge = 900, path = ''/''\<rparr>
            @ '', '' @
            serialize L ''refreshToken'' t
              \<lparr>httpOnly = True, secure = production L, sameSite = ''strict'', maxAge = 604800, path = ''/''\<rparr>),
            (''content-type'', ''text/plain;charset=UTF-8'')],
          body = JObj [(''message'', JStr ''Login successful'')]\<rparr>
     \<and> (15 * 60 = (900 :: int)) \<and> (60 * 60 * 24 * 7 = (604800 :: int))"
proof -
  from session_POST_response [of L req w] assms
  obtain uid a t where s:
    "sign L [(''userId'', uid)] (JWT_ACCESS_SECRET L) ''15m'' (clock L 0) = Inr a"
    "sign L [(''userId'', uid)] (JWT_REFRESH_SECRET L) ''7d'' (clock L 1) = Inr t"
    and r: "fst (session_POST L req w) =
         \<lparr>status = 200,
          headers = [(''Set-Cookie'',
            serialize L ''accessToken'' a
              \<lparr>httpOnly = True, secure = production L, sameSite = ''strict'', maxAge = 900, path = ''/''\<rparr>
            @ '', '' @
            serialize L ''refreshToken'' t
              \<lparr>httpOnly = True, secure = production L, sameSite = ''strict'', maxAge = 604800, path = ''/''\<rparr>),
            (''content-type'', ''text/plain;charset=UTF-8'')],
          body = JObj [(''message'', JStr ''Login successful'')]\<rparr>"
    by (auto simp add: response_simps)
  from s(1) obtain ka where ka: "JWT_ACCESS_SECRET L = Some ka"
    "jws_sign L (JObj [(''userId'', uid), (''iat'', JNum (of_nat (clock L 0))),
                        (''exp'', JNum (of_nat (clock L 0) + 900))]) ka = Inr a"
    by (auto simp add: sign_15m)
  from s(2) obtain kr where kr: "JWT_REFRESH_SECRET L = Some kr"
    "jws_sign L (JObj [(''userId'', uid), (''iat'', JNum (of_nat (clock L 1))),
                        (''exp'', JNum (of_nat (clock L 1) + 604800))]) kr = Inr t"
    by (auto simp add: sign_7d)
  from s r ka kr show ?thesis by simp blast
qed

text \<open>
  Ann's login, the clock reading 1000 and then 1001: the tokens expire at 1900 and at
  605801.
\<close>

theorem login_token_lifetimes_witness:
  "status (fst (session_POST demo_lib (demo_login_request ''ann@example.com'' ''secret1'') demo_world)) = 200
   \<and> jws_sign demo_lib (JObj [(''userId'', JNum 1), (''iat'', JNum 1000), (''exp'', JNum 1900)]) ''access-secret''
       = Inr ''access-secret.exp=1900''
   \<and> jws_sign demo_lib (JObj [(''userId'', JNum 1), (''iat'', JNum 1001), (''exp'', JNum 605801)]) ''refresh-secret''
       = Inr ''refresh-secret.exp=605801''
   \<and> (\<exists>a t. fst (session_POST demo_lib (demo_login_request ''ann@example.com'' ''secret1'') demo_world) =
         \<lparr>status = 200,
          headers = [(''Set-Cookie'',
            ''accessToken='' @ a @ ''; Max-Age=900; Path=/; HttpOnly; Secure; SameSite=strict, refreshToken=''
              @ t @ ''; Max-Age=604800; Path=/; HttpOnly; Secure; SameSite=strict''),
            (''content-type'', ''text/plain;charset=UTF-8'')],
          body = JObj [(''message'', JStr ''Login successful'')]\<rparr>)"
proof -
  have s: "status (fst (session_POST demo_lib (demo_login_request ''ann@example.com'' ''secret1'') demo_world)) = 200"
    by (simp add: demo_login_run)
  have j: "jws_sign demo_lib (JObj [(''userId'', JNum 1), (''iat'', JNum 1000), (''exp'', JNum 1900)]) ''access-secret''
       = Inr ''access-secret.exp=1900''"
    "jws_sign demo_lib (JObj [(''userId'', JNum 1), (''iat'', JNum 1001), (''exp'', JNum 605801)]) ''refresh-secret''
       = Inr ''refresh-secret.exp=605801''"
    by (simp_all add: demo_lib_def demo_jws_sign_def get_prop_def show_values)
  from login_token_lifetimes [OF s]
  have "\<exists>a t. fst (session_POST demo_lib (demo_login_request ''ann@example.com'' ''secret1'') demo_world) =
         \<lparr>status = 200,
          headers = [(''Set-Cookie'',
            ''accessToken='' @ a @ ''; Max-Age=900; Path=/; HttpOnly; Secure; SameSite=strict, refreshToken=''
              @ t @ ''; Max-Age=604800; Path=/; HttpOnly; Secure; SameSite=strict''),
            (''content-type'', ''text/plain;charset=UTF-8'')],
          body = JObj [(''message'', JStr ''Login successful'')]\<rparr>"
    by (auto simp add: demo_serialize_values)
  with s j show ?thesis by simp
qed

section \<open>Logout\<close>

text \<open>
  C6: DELETE /api/auth/session takes nothing from the request. It responds 200 with the
  message "Logout successful", its Set-Cookie header serializes accessToken and
  refreshToken with the empty string as value and maxAge -1, and it makes no database
  query.
\<close>

theorem logout_clears_cookies:
  "session_DELETE L w =
     (\<lparr>status = 200,
       headers = [(''Set-Cookie'',
         serialize L ''accessToken'' []
           \<lparr>httpOnly = True, secure = production L, sameSite = ''strict'', maxAge = - 1, path = ''/''\<rparr>
         @ '', '' @
         serialize L ''refreshToken'' []
           \<lparr>httpOnly = True, secure = production L, sameSite = ''strict'', maxAge = - 1, path = ''/''\<rparr>),
         (''content-type'', ''text/plain;charset=UTF-8'')],
       body = JObj [(''message'', JStr ''Logout successful'')]\<rparr>, w)
   \<and> map (\<lambda>(n, v, opts). (n, v, maxAge opts)) (logout_cookies L) =
       [(''accessToken'', [], - 1), (''refreshToken'', [], - 1)]
   \<and> queries (snd (session_DELETE L w)) = queries w \<and> store (snd (session_DELETE L w)) = store w"
  by (simp add: session_DELETE_def logout_cookies_def serialized_def NextResponse_new_def message_body_def)

section \<open>The attributes of the session cookies\<close>

lemma session_POST_headers:
  "(status (fst (session_POST L req w)) \<noteq> 200
       \<and> headers (fst (session_POST L req w)) = [(''content-type'', ''application/json'')])
     \<or> (status (fst (session_POST L req w)) = 200
       \<and> (\<exists>a t. headers (fst (session_POST L req w)) =
             [(''Set-Cookie'',
               serialize L ''accessToken'' a
                 \<lparr>httpOnly = True, secure = production L, sameSite = ''strict'', maxAge = 900, path = ''/''\<rparr>
               @ '', '' @
               serialize L ''refreshToken'' t
                 \<lparr>httpOnly = True, secure = production L, sameSite = ''strict'', maxAge = 604800, path = ''/''\<rparr>),
              (''content-type'', ''text/plain;charset=UTF-8'')]))"
proof -
  consider (err) m st where "st = 400 \<or> st = 401 \<or> st = 500"
      "fst (session_POST L req w) = NextResponse_json (message_body m) st"
    | (ok) a t where "fst (session_POST L req w) =
           \<lparr>status = 200,
            headers = [(''Set-Cookie'',
              serialize L ''accessToken'' a
                \<lparr>httpOnly = True, secure = production L, sameSite = ''strict'', maxAge = 900, path = ''/''\<rparr>
              @ '', '' @
              serialize L ''refreshToken'' t
                \<lparr>httpOnly = True, secure = production L, sameSite = ''strict'', maxAge = 604800, path = ''/''\<rparr>),
              (''content-type'', ''text/plain;charset=UTF-8'')],
            body = JObj [(''message'', JStr ''Login successful'')]\<rparr>"
    using session_POST_response [of L req w] by blast
  then show ?thesis
  proof cases
    case err
    then show ?thesis
      by (auto simp add: response_simps)
  next
    case ok
    then have "headers (fst (session_POST L req w)) =
             [(''Set-Cookie'',
               serialize L ''accessToken'' a
                 \<lparr>httpOnly = True, secure = production L, sameSite = ''strict'', maxAge = 900, path = ''/''\<rparr>
               @ '', '' @
               serialize L ''refreshToken'' t
                 \<lparr>httpOnly = True, secure = production L, sameSite = ''strict'', maxAge = 604800, path = ''/''\<rparr>),
              (''content-type'', ''text/plain;charset=UTF-8'')]"
      by simp
    then have "\<exists>a t. headers (fst (session_POST L req w)) =
             [(''Set-Cookie'',
               serialize L ''accessToken'' a
                 \<lparr>httpOnly = True, secure = production L, sameSite = ''strict'', maxAge = 900, path = ''/''\<rparr>
               @ '', '' @
               serialize L ''refreshToken'' t
                 \<lparr>httpOnly = True, secure = production L, sameSite = ''strict'', maxAge = 604800, path = ''/''\<rparr>),
              (''content-type'', ''text/plain;charset=UTF-8'')]"
      by blast
    moreover from ok have "status (fst (session_POST L req w)) = 200"
      by simp
    ultimately show ?thesis by blast
  qed
qed

text \<open>
  C7: every cookie the session endpoints serialize carries httpOnly true, sameSite
  "strict" and path "/". A response of the login handler either has no Set-Cookie header
  (its status is 400, 401 or 500) or has status 200 and a Set-Cookie header that is
  \<open>serialize\<close> of accessToken and of refreshToken, each under options with these three
  attributes; the Set-Cookie header of the logout handler is \<open>serialize\<close> of the same two
  names under options with these three attributes. These are the four serializations.
\<close>

theorem session_cookies_http_only:
  "((status (fst (session_POST L req w)) \<noteq> 200
       \<and> headers (fst (session_POST L req w)) = [(''content-type'', ''application/json'')])
     \<or> (status (fst (session_POST L req w)) = 200
       \<and> (\<exists>a t. headers (fst (session_POST L req w)) =
             [(''Set-Cookie'',
               serialize L ''accessToken'' a
                 \<lparr>httpOnly = True, secure = production L, sameSite = ''strict'', maxAge = 900, path = ''/''\<rparr>
               @ '', '' @
               serialize L ''refreshToken'' t
                 \<lparr>httpOnly = True, secure = production L, sameSite = ''strict'', maxAge = 604800, path = ''/''\<rparr>),
              (''content-type'', ''text/plain;charset=UTF-8'')])))
   \<and> headers (fst (session_DELETE L w')) =
       [(''Set-Cookie'',
         serialize L ''accessToken'' []
           \<lparr>httpOnly = True, secure = production L, sameSite = ''strict'', maxAge = - 1, path = ''/''\<rparr>
         @ '', '' @
         serialize L ''refreshToken'' []
           \<lparr>httpOnly = True, secure = production L, sameSite = ''strict'', maxAge = - 1, path = ''/''\<rparr>),
        (''content-type'', ''text/plain;charset=UTF-8'')]"
proof -
  have "headers (fst (session_DELETE L w')) =
       [(''Set-Cookie'',
         serialize L ''accessToken'' []
           \<lparr>httpOnly = True, secure = production L, sameSite = ''strict'', maxAge = - 1, path = ''/''\<rparr>
         @ '', '' @
         serialize L ''refreshToken'' []
           \<lparr>httpOnly = True, secure = production L, sameSite = ''strict'', maxAge = - 1, path = ''/''\<rparr>),
        (''content-type'', ''text/plain;charset=UTF-8'')]"
    by (simp add: session_DELETE_def logout_cookies_def serialized_def NextResponse_new_def)
  with session_POST_headers [of L req w] show ?thesis by blast
qed

text \<open>
  Ann's login and a logout, with the cookie texts written out: each of the four carries
  HttpOnly, SameSite=strict and Path=/.
\<close>

theorem session_cookies_http_only_witness:
  "(\<exists>a t. headers (fst (session_POST demo_lib (demo_login_request ''ann@example.com'' ''secret1'') demo_world)) =
       [(''Set-Cookie'',
         ''accessToken='' @ a @ ''; Max-Age=900; Path=/; HttpOnly; Secure; SameSite=strict, refreshToken=''
           @ t @ ''; Max-Age=604800; Path=/; HttpOnly; Secure; SameSite=strict''),
        (''content-type'', ''text/plain;charset=UTF-8'')])
   \<and> headers (fst (session_DELETE demo_lib demo_world)) =
       [(''Set-Cookie'',
         ''accessToken=; Max-Age=-1; Path=/; HttpOnly; Secure; SameSite=strict, refreshToken=; Max-Age=-1; Path=/; HttpOnly; Secure; SameSite=strict''),
        (''content-type'', ''text/plain;charset=UTF-8'')]"
proof -
  have s: "status (fst (session_POST demo_lib (demo_login_request ''ann@example.com'' ''secret1'') demo_world)) = 200"
    by (simp add: demo_login_run)
  show ?thesis
    using session_cookies_http_only
      [of demo_lib "demo_login_request ''ann@example.com'' ''secret1''" demo_world demo_world] s
    by (auto simp add: demo_serialize_values)
qed

section \<open>The two login failures look the same\<close>

text \<open>
  C9: of two schema-valid requests to POST /api/auth/session, one whose email matches no
  user row and one whose email matches a user but whose password fails the comparison,
  the responses are equal: status 401, body \<open>{ message: "Invalid credentials" }\<close>, the
  same headers.
\<close>

theorem login_failures_indistinguishable:
  assumes "json req1 = Inr b1" and "schema_parse L b1 = Inr cred1"
    and "pool_run L users_sql [JStr (email cred1)] (store w1) = (Inr [], d1)"
    and "json req2 = Inr b2" and "schema_parse L b2 = Inr cred2"
    and "pool_run L users_sql [JStr (email cred2)] (store w2) = (Inr (r # rs), d2)"
    and "bcrypt_compare L (password cred2) (get_prop r ''password'') = Inr False"
  shows "fst (session_POST L req1 w1) = fst (session_POST L req2 w2)
       \<and> status (fst (session_POST L req1 w1)) = 401
       \<and> body (fst (session_POST L req1 w1)) = JObj [(''message'', JStr ''Invalid credentials'')]
       \<and> headers (fst (session_POST L req1 w1)) = headers (fst (session_POST L req2 w2))"
  using assms(7)
  by (simp add: session_POST_valid [OF assms(1-3)] session_POST_valid [OF assms(4-6)]
      status_simps message_body_def)

theorem login_failures_indistinguishable_witness:
  "fst (session_POST demo_lib (demo_login_request ''bob@example.com'' ''secret1'') demo_world) =
   fst (session_POST demo_lib (demo_login_request ''ann@example.com'' ''secret2'') demo_world)
   \<and> status (fst (session_POST demo_lib (demo_login_request ''bob@example.com'' ''secret1'') demo_world)) = 401"
proof -
  have p1: "schema_parse demo_lib (demo_login_body ''ann@example.com'' ''secret2'') =
      Inr \<lparr>email = ''ann@example.com'', password = ''secret2''\<rparr>"
    by (rule demo_login_parse) simp_all
  have p2: "schema_parse demo_lib (demo_login_body ''bob@example.com'' ''secret1'') =
      Inr \<lparr>email = ''bob@example.com'', password = ''secret1''\<rparr>"
    by (rule demo_login_parse) simp_all
  have q1: "pool_run demo_lib users_sql [JStr (email \<lparr>email = ''ann@example.com'', password = ''secret2''\<rparr>)]
      (store demo_world) = (Inr (demo_user # []), 0)"
    by (simp add: demo_users_check demo_world_def)
  have q2: "pool_run demo_lib users_sql [JStr (email \<lparr>email = ''bob@example.com'', password = ''secret1''\<rparr>)]
      (store demo_world) = (Inr [], 0)"
    by (simp add: demo_users_check demo_world_def)
  have c: "bcrypt_compare demo_lib (password \<lparr>email = ''ann@example.com'', password = ''secret2''\<rparr>)
      (get_prop demo_user ''password'') = Inr False"
    by (simp add: demo_compare)
  show ?thesis
    using login_failures_indistinguishable [OF demo_login_json p2 q2 demo_login_json p1 q1 c]
    by blast
qed

end
